theory Spec2Isabelle
  imports Complex_Main "HOL-Library.Word" "HOL-Library.Sublist"
begin

section \<open>JavaScript strings\<close>

text \<open>
  A JavaScript string is a sequence of 16-bit code units; \<open>length\<close>, \<open>substring\<close>,
  \<open>split\<close>, \<open>trim\<close> and a regular expression without the \<open>u\<close> flag all work on code
  units. \<open>lit\<close> turns an ASCII literal of the source into its code units.
\<close>

type_synonym jschar = "16 word"
type_synonym jsstring = "jschar list"

definition lit :: "string \<Rightarrow> jsstring" where
  "lit s = map of_char s"

text \<open>The code units that \<open>String.prototype.trim\<close> strips: WhiteSpace and LineTerminator.\<close>

definition isWhiteSpace :: "jschar \<Rightarrow> bool" where
  "isWhiteSpace c =
     (c = 0x0009 \<or> c = 0x000A \<or> c = 0x000B \<or> c = 0x000C \<or> c = 0x000D \<or> c = 0x0020
      \<or> c = 0x00A0 \<or> c = 0x1680 \<or> (0x2000 \<le> c \<and> c \<le> 0x200A) \<or> c = 0x2028
      \<or> c = 0x2029 \<or> c = 0x202F \<or> c = 0x205F \<or> c = 0x3000 \<or> c = 0xFEFF)"

definition trim :: "jsstring \<Rightarrow> jsstring" where
  "trim s = rev (dropWhile isWhiteSpace (rev (dropWhile isWhiteSpace s)))"

text \<open>
  \<open>s.split('. ')\<close>: the string is scanned from the left, every occurrence of the two code
  units full stop (0x2E), space (0x20) ends the current piece, and the scan goes on after
  the occurrence. The first argument is the piece read so far.
\<close>

fun split_period_space :: "jsstring \<Rightarrow> jsstring \<Rightarrow> jsstring list" where
  "split_period_space acc [] = [acc]"
| "split_period_space acc [c] = [acc @ [c]]"
| "split_period_space acc (c # d # rest) =
     (if c = 0x2E \<and> d = 0x20 then acc # split_period_space [] rest
      else split_period_space (acc @ [c]) (d # rest))"

text \<open>\<open>s.replace(pat, rep)\<close> with a string pattern: the first occurrence only.\<close>

fun replace_first :: "jsstring \<Rightarrow> jsstring \<Rightarrow> jsstring \<Rightarrow> jsstring" where
  "replace_first pat rep [] = (if pat = [] then rep else [])"
| "replace_first pat rep (c # cs) =
     (if prefix pat (c # cs) then rep @ drop (length pat) (c # cs)
      else c # replace_first pat rep cs)"

text \<open>\<open>text.replace(/'/g, "\\'")\<close>: every apostrophe gets a backslash in front.\<close>

definition escape_quotes :: "jsstring \<Rightarrow> jsstring" where
  "escape_quotes s = concat (map (\<lambda>c. if c = 0x27 then [0x5C, 0x27] else [c]) s)"

text \<open>The decimal digits of an index, as a template literal prints it.\<close>

fun digits :: "nat \<Rightarrow> jsstring" where
  "digits n = (if n < 10 then [0x30 + of_nat n]
               else digits (n div 10) @ [0x30 + of_nat (n mod 10)])"

declare digits.simps [simp del]

text \<open>
  \<open>path.join\<close> on non-empty directories that are already in normal form: the parts
  with a slash between them.
\<close>

definition path_join :: "jsstring \<Rightarrow> jsstring \<Rightarrow> jsstring" where
  "path_join dir name = dir @ lit ''/'' @ name"


section \<open>videoEditor.js: file names and script segmentation\<close>

text \<open>
  \<open>filename.replace(/[^a-z0-9\u4e00-\u9fff]/gi, '_').substring(0, 100)\<close>. With the \<open>i\<close>
  flag and no \<open>u\<close> flag a code unit is in the class when its upper-case form is that of
  a member, and a code unit from 128 on is never mapped to an ASCII one; so the class
  holds the ASCII letters of both cases, the ASCII digits and U+4E00 to U+9FFF.
\<close>

definition inClass :: "jschar \<Rightarrow> bool" where
  "inClass c = ((0x61 \<le> c \<and> c \<le> 0x7A) \<or> (0x41 \<le> c \<and> c \<le> 0x5A)
                \<or> (0x30 \<le> c \<and> c \<le> 0x39) \<or> (0x4E00 \<le> c \<and> c \<le> 0x9FFF))"

definition sanitizeFilename :: "jsstring \<Rightarrow> jsstring" where
  "sanitizeFilename filename = take 100 (map (\<lambda>c. if inClass c then c else 0x5F) filename)"




text \<open>
  A scene as \<open>parseScript\<close> builds it: \<open>{ id, text, duration }\<close>. \<open>Math.random()\<close> is
  a parameter: \<open>rnd i\<close> is the value of the call made for the sentence with index \<open>i\<close>
  (the calls are made in index order). Numbers are exact reals; the rounding of doubles
  is not modelled.
\<close>

record scene =
  scene_id :: nat
  scene_text :: jsstring
  scene_duration :: real

definition parseScript :: "(nat \<Rightarrow> real) \<Rightarrow> jsstring \<Rightarrow> scene list" where
  "parseScript rnd script =
     (let sentences = filter (\<lambda>s. length (trim s) > 0) (split_period_space [] script)
      in map (\<lambda>(index, sentence).
                \<lparr>scene_id = index, scene_text = trim sentence,
                 scene_duration = 3 + rnd index * 2\<rparr>)
             (enumerate 0 sentences))"


section \<open>videoEditor.js: the pipeline\<close>

text \<open>
  The file system is a map from paths to contents. A video is the list of its clips, a
  clip being the text drawn and the duration in seconds. The outcomes of the external
  calls (ffmpeg runs, \<open>fs.writeFile\<close>, \<open>fs.unlink\<close>, \<open>Math.random\<close>) are given by the
  environment; a failed external call leaves no file behind. The world also records the
  calls made: each renderer invocation, each file list given to the concatenation, and
  each error passed to \<open>ErrorHandler.handle\<close>.
\<close>

datatype content = Text jsstring | Video "(jsstring \<times> real) list" | Image

datatype error =
    TypeError
  | RenderError nat
  | WriteError
  | ConcatError
  | OptimizeError
  | ThumbnailError
  | VideoCreationFailed

record world =
  files :: "jsstring \<rightharpoonup> content"
  renders :: "(jsstring \<times> real) list"
  concats :: "jsstring list list"
  handled :: "error list"

record env =
  math_random :: "nat \<Rightarrow> real"
  render_ok :: "nat \<Rightarrow> bool"
  writeFile_ok :: bool
  concat_ok :: bool
  unlink_ok :: "jsstring \<Rightarrow> bool"
  optimize_ok :: bool
  thumbnail_ok :: bool

record config =
  tempDir :: jsstring
  outputDir :: jsstring

text \<open>
  \<open>ErrorHandler.safeExecute(fn, context, fallback)\<close>: runs \<open>fn\<close>; an error it raises is
  handed to \<open>ErrorHandler.handle\<close> (which logs it) and the fallback is returned.
\<close>

definition ErrorHandler_handle :: "error \<Rightarrow> world \<Rightarrow> world" where
  "ErrorHandler_handle e w = w\<lparr>handled := handled w @ [e]\<rparr>"

definition safeExecute ::
  "(world \<Rightarrow> (error + 'a) \<times> world) \<Rightarrow> 'a \<Rightarrow> world \<Rightarrow> 'a \<times> world" where
  "safeExecute fn fallback w =
     (case fn w of
        (Inr v, w') \<Rightarrow> (v, w')
      | (Inl e, w') \<Rightarrow> (fallback, ErrorHandler_handle e w'))"

definition scenePath :: "config \<Rightarrow> nat \<Rightarrow> jsstring" where
  "scenePath cfg index =
     path_join (path_join (tempDir cfg) (lit ''video''))
               (lit ''scene_'' @ digits index @ lit ''.mp4'')"

definition createSceneVideo ::
  "env \<Rightarrow> config \<Rightarrow> scene \<Rightarrow> nat \<Rightarrow> real \<Rightarrow> world \<Rightarrow> jsstring option \<times> world" where
  "createSceneVideo e cfg scene index maxDuration =
     safeExecute
       (\<lambda>w. let d = min (scene_duration scene) maxDuration;
                 clip = (escape_quotes (scene_text scene), d);
                 w1 = w\<lparr>renders := renders w @ [clip]\<rparr>
             in if render_ok e index
                then (Inr (Some (scenePath cfg index)),
                      w1\<lparr>files := (files w1)(scenePath cfg index \<mapsto> Video [clip])\<rparr>)
                else (Inl (RenderError index), w1))
       None"

text \<open>\<open>videoPaths.filter(p => p)\<close>: \<open>null\<close> and the empty string are dropped.\<close>

fun truthy_paths :: "jsstring option list \<Rightarrow> jsstring list" where
  "truthy_paths [] = []"
| "truthy_paths (None # ps) = truthy_paths ps"
| "truthy_paths (Some p # ps) = (if p = [] then truthy_paths ps else p # truthy_paths ps)"

fun join_lines :: "jsstring list \<Rightarrow> jsstring" where
  "join_lines [] = []"
| "join_lines [l] = l"
| "join_lines (l # m # ls) = l @ [0x0A] @ join_lines (m # ls)"

definition clips_of :: "world \<Rightarrow> jsstring \<Rightarrow> (jsstring \<times> real) list" where
  "clips_of w p = (case files w p of Some (Video cs) \<Rightarrow> cs | _ \<Rightarrow> [])"

definition listFile :: "config \<Rightarrow> jsstring" where
  "listFile cfg = path_join (tempDir cfg) (lit ''concat_list.txt'')"

definition concatenateVideos ::
  "env \<Rightarrow> config \<Rightarrow> jsstring option list \<Rightarrow> jsstring \<Rightarrow> world \<Rightarrow> jsstring option \<times> world" where
  "concatenateVideos e cfg videoPaths outputPath =
     safeExecute
       (\<lambda>w. let inputs = truthy_paths videoPaths;
                 listContent = join_lines (map (\<lambda>p. lit ''file '' @ [0x27] @ p @ [0x27]) inputs)
             in if \<not> writeFile_ok e then (Inl WriteError, w)
                else let w1 = w\<lparr>files := (files w)(listFile cfg \<mapsto> Text listContent)\<rparr>;
                         w2 = w1\<lparr>concats := concats w1 @ [inputs]\<rparr>
                     in if concat_ok e
                        then (Inr (Some outputPath),
                              w2\<lparr>files := (files w2)(outputPath \<mapsto>
                                     Video (concat (map (clips_of w2) inputs)))\<rparr>)
                        else (Inl ConcatError, w2))
       None"

text \<open>
  \<open>cleanup\<close>: every truthy path is unlinked; an unlink that fails (no such file, or the
  environment refuses it) is caught and logged as a warning, and the loop goes on.
\<close>

definition unlink :: "env \<Rightarrow> jsstring \<Rightarrow> world \<Rightarrow> world" where
  "unlink e p w =
     (if files w p \<noteq> None \<and> unlink_ok e p then w\<lparr>files := (files w)(p := None)\<rparr> else w)"

fun cleanup :: "env \<Rightarrow> jsstring option list \<Rightarrow> world \<Rightarrow> world" where
  "cleanup e [] w = w"
| "cleanup e (None # ps) w = cleanup e ps w"
| "cleanup e (Some p # ps) w = cleanup e ps (if p = [] then w else unlink e p w)"

text \<open>
  The arguments \<open>scriptData\<close> and \<open>options\<close> are objects whose fields may be missing;
  \<open>{ ...scriptData, ...options }\<close> takes a field from \<open>options\<close> when it is there.
\<close>

record script_args =
  title :: "jsstring option"
  script :: "jsstring option"
  duration :: "real option"

definition spread :: "script_args \<Rightarrow> script_args \<Rightarrow> script_args" where
  "spread a b =
     \<lparr>title = (case title b of Some t \<Rightarrow> Some t | None \<Rightarrow> title a),
      script = (case script b of Some s \<Rightarrow> Some s | None \<Rightarrow> script a),
      duration = (case duration b of Some d \<Rightarrow> Some d | None \<Rightarrow> duration a)\<rparr>"

text \<open>The loop of \<open>createVideoFromScript\<close>: scene \<open>i\<close> is rendered and awaited before scene \<open>i + 1\<close>.\<close>

fun render_scenes ::
  "env \<Rightarrow> config \<Rightarrow> real \<Rightarrow> nat \<Rightarrow> scene list \<Rightarrow> world \<Rightarrow> jsstring option list \<times> world" where
  "render_scenes e cfg maxDuration i [] w = ([], w)"
| "render_scenes e cfg maxDuration i (s # ss) w =
     (case createSceneVideo e cfg s i maxDuration w of
        (segmentPath, w1) \<Rightarrow>
          (case render_scenes e cfg maxDuration (Suc i) ss w1 of
             (segments, w2) \<Rightarrow> (segmentPath # segments, w2)))"

definition outputPath :: "config \<Rightarrow> jsstring \<Rightarrow> jsstring" where
  "outputPath cfg t = path_join (outputDir cfg) (sanitizeFilename t @ lit ''.mp4'')"

text \<open>
  \<open>createVideoFromScript\<close>. A missing \<open>title\<close> or \<open>script\<close> makes the method call on it
  raise a TypeError, which the enclosing \<open>safeExecute\<close> catches like any other error.
  \<open>ensureDirectories\<close> only creates directories and swallows its own errors; directories
  are not part of the file system modelled here.
\<close>

definition createVideoFromScript ::
  "env \<Rightarrow> config \<Rightarrow> script_args \<Rightarrow> script_args \<Rightarrow> world \<Rightarrow> jsstring option \<times> world" where
  "createVideoFromScript e cfg scriptData options =
     safeExecute
       (\<lambda>w. let args = spread scriptData options;
                 dur = (case duration args of Some d \<Rightarrow> d | None \<Rightarrow> 60)
             in case title args of
                  None \<Rightarrow> (Inl TypeError, w)
                | Some t \<Rightarrow>
                    (case script args of
                       None \<Rightarrow> (Inl TypeError, w)
                     | Some s \<Rightarrow>
                         let scenes = parseScript (math_random e) s
                         in case render_scenes e cfg (dur / real (length scenes)) 0 scenes w of
                              (videoSegments, w1) \<Rightarrow>
                                (case concatenateVideos e cfg videoSegments (outputPath cfg t) w1 of
                                   (finalVideo, w2) \<Rightarrow>
                                     (Inr finalVideo, cleanup e videoSegments w2))))
       None"



section \<open>automation.js: the video steps of createAndPublishVideo\<close>

text \<open>
  \<open>optimizeForPlatform\<close> and \<open>createThumbnail\<close> of videoEditor.js write their output
  next to the input, under the name \<open>videoPath.replace('.mp4', ...)\<close>.
\<close>

definition optimizeForPlatform ::
  "env \<Rightarrow> jsstring \<Rightarrow> jsstring \<Rightarrow> world \<Rightarrow> jsstring option \<times> world" where
  "optimizeForPlatform e videoPath platform =
     safeExecute
       (\<lambda>w. let out = replace_first (lit ''.mp4'') (lit ''_'' @ platform @ lit ''.mp4'') videoPath
             in if optimize_ok e
                then (Inr (Some out),
                      w\<lparr>files := (files w)(out \<mapsto> Video (clips_of w videoPath))\<rparr>)
                else (Inl OptimizeError, w))
       None"




section \<open>The queue service\<close>

text \<open>
  \<open>this.queues\<close> is an object literal \<open>{}\<close> that \<open>init\<close> gives four own properties. A
  property read \<open>this.queues[queueName]\<close> that finds no own property goes on to
  \<open>Object.prototype\<close>, whose members are functions (and, for \<open>__proto__\<close>, the prototype
  object itself): truthy values that are not queues. The Bull queue behind each own
  property is modelled by the jobs it holds and its paused flag.
\<close>

datatype job_state = Waiting | Active | Completed | Failed | Delayed

record job =
  job_state :: job_state
  job_progress :: nat

record bull_queue =
  jobs :: "(string \<times> job) list"
  paused :: bool

type_synonym queues = "string \<rightharpoonup> bull_queue"

datatype property = Undefined | OwnQueue bull_queue | Inherited

definition object_prototype_names :: "string list" where
  "object_prototype_names =
     [''constructor'', ''__proto__'', ''hasOwnProperty'', ''isPrototypeOf'',
      ''propertyIsEnumerable'', ''toLocaleString'', ''toString'', ''valueOf'',
      ''__defineGetter__'', ''__defineSetter__'', ''__lookupGetter__'', ''__lookupSetter__'']"

definition get_property :: "queues \<Rightarrow> string \<Rightarrow> property" where
  "get_property qs queueName =
     (case qs queueName of
        Some q \<Rightarrow> OwnQueue q
      | None \<Rightarrow> if queueName \<in> set object_prototype_names then Inherited else Undefined)"

definition init :: queues where
  "init = [''videoGeneration'' \<mapsto> \<lparr>jobs = [], paused = False\<rparr>,
           ''trendAnalysis'' \<mapsto> \<lparr>jobs = [], paused = False\<rparr>,
           ''videoUpload'' \<mapsto> \<lparr>jobs = [], paused = False\<rparr>,
           ''aiProcessing'' \<mapsto> \<lparr>jobs = [], paused = False\<rparr>]"

text \<open>
  \<open>QueueNotFound\<close> is the error the guard throws; \<open>NotAFunction\<close> is the TypeError of
  calling a method that the value read does not have.
\<close>

datatype queue_error = QueueNotFound string | NotAFunction

record queue_stats =
  waiting :: nat
  active :: nat
  completed :: nat
  failed :: nat
  delayed :: nat

definition count_state :: "bull_queue \<Rightarrow> job_state \<Rightarrow> nat" where
  "count_state q st = length (filter (\<lambda>(i, j). job_state j = st) (jobs q))"

definition getJobStatus :: "queues \<Rightarrow> string \<Rightarrow> string \<Rightarrow> queue_error + job option" where
  "getJobStatus qs queueName jobId =
     (case get_property qs queueName of
        Undefined \<Rightarrow> Inl (QueueNotFound queueName)
      | Inherited \<Rightarrow> Inl NotAFunction
      | OwnQueue q \<Rightarrow>
          (case map_of (jobs q) jobId of
             None \<Rightarrow> Inr None
           | Some j \<Rightarrow> Inr (Some j)))"

definition getQueueStats :: "queues \<Rightarrow> string \<Rightarrow> queue_error + queue_stats" where
  "getQueueStats qs queueName =
     (case get_property qs queueName of
        Undefined \<Rightarrow> Inl (QueueNotFound queueName)
      | Inherited \<Rightarrow> Inl NotAFunction
      | OwnQueue q \<Rightarrow>
          Inr \<lparr>waiting = count_state q Waiting, active = count_state q Active,
               completed = count_state q Completed, failed = count_state q Failed,
               delayed = count_state q Delayed\<rparr>)"

text \<open>Bull's \<open>empty()\<close> removes the waiting and the delayed jobs.\<close>

definition clearQueue :: "queues \<Rightarrow> string \<Rightarrow> queue_error + queues" where
  "clearQueue qs queueName =
     (case get_property qs queueName of
        Undefined \<Rightarrow> Inl (QueueNotFound queueName)
      | Inherited \<Rightarrow> Inl NotAFunction
      | OwnQueue q \<Rightarrow>
          Inr (qs(queueName \<mapsto>
                 q\<lparr>jobs := filter (\<lambda>(i, j). job_state j \<noteq> Waiting \<and> job_state j \<noteq> Delayed)
                                  (jobs q)\<rparr>)))"

definition pauseQueue :: "queues \<Rightarrow> string \<Rightarrow> queue_error + queues" where
  "pauseQueue qs queueName =
     (case get_property qs queueName of
        Undefined \<Rightarrow> Inl (QueueNotFound queueName)
      | Inherited \<Rightarrow> Inl NotAFunction
      | OwnQueue q \<Rightarrow> Inr (qs(queueName \<mapsto> q\<lparr>paused := True\<rparr>)))"

definition resumeQueue :: "queues \<Rightarrow> string \<Rightarrow> queue_error + queues" where
  "resumeQueue qs queueName =
     (case get_property qs queueName of
        Undefined \<Rightarrow> Inl (QueueNotFound queueName)
      | Inherited \<Rightarrow> Inl NotAFunction
      | OwnQueue q \<Rightarrow> Inr (qs(queueName \<mapsto> q\<lparr>paused := False\<rparr>)))"


section \<open>Scripts made of sentences\<close>

text \<open>
  To speak about the sentences of a script: \<open>join_period_space\<close> writes pieces one after
  the other with a full stop and a space between them, and \<open>has_period_space\<close> says that
  a piece contains that boundary itself.
\<close>

fun has_period_space :: "jsstring \<Rightarrow> bool" where
  "has_period_space [] = False"
| "has_period_space [c] = False"
| "has_period_space (c # d # rest) = ((c = 0x2E \<and> d = 0x20) \<or> has_period_space (d # rest))"

fun join_period_space :: "jsstring list \<Rightarrow> jsstring" where
  "join_period_space [] = []"
| "join_period_space [s] = s"
| "join_period_space (s # t # ss) = s @ [0x2E, 0x20] @ join_period_space (t # ss)"


section \<open>Example inputs\<close>

definition example_cfg :: config where
  "example_cfg = \<lparr>tempDir = lit ''/srv/temp'', outputDir = lit ''/srv/out''\<rparr>"

definition example_env :: env where
  "example_env =
     \<lparr>math_random = (\<lambda>i. 1 / 2), render_ok = (\<lambda>i. True), writeFile_ok = True,
      concat_ok = True, unlink_ok = (\<lambda>p. True), optimize_ok = True, thumbnail_ok = True\<rparr>"

definition example_args :: script_args where
  "example_args =
     \<lparr>title = Some (lit ''My Video''), script = Some (lit ''A. B. C.''), duration = None\<rparr>"

definition no_options :: script_args where
  "no_options = \<lparr>title = None, script = None, duration = None\<rparr>"

definition empty_world :: world where
  "empty_world = \<lparr>files = Map.empty, renders = [], concats = [], handled = []\<rparr>"

text \<open>The same environment, with the render of scene 1 failing, or the concatenation failing.\<close>

definition scene1_fails_env :: env where
  "scene1_fails_env = example_env\<lparr>render_ok := (\<lambda>i. i \<noteq> 1)\<rparr>"

definition concat_fails_env :: env where
  "concat_fails_env = example_env\<lparr>concat_ok := False\<rparr>"





section \<open>Helper facts\<close>

lemma inClass_underscore: "\<not> inClass 0x5F"
  by (simp add: inClass_def)



section \<open>Helper facts: the pipeline\<close>


lemma createSceneVideo_renders:
  "renders (snd (createSceneVideo e cfg s i m w)) =
     renders w @ [(escape_quotes (scene_text s), min (scene_duration s) m)]"
  by (simp add: createSceneVideo_def safeExecute_def Let_def ErrorHandler_handle_def)


lemma createSceneVideo_handled:
  "handled (snd (createSceneVideo e cfg s i m w)) =
     handled w @ (if render_ok e i then [] else [RenderError i])"
  by (simp add: createSceneVideo_def safeExecute_def Let_def ErrorHandler_handle_def)

lemma render_scenes_Cons:
  "render_scenes e cfg m i (s # ss) w =
     (fst (createSceneVideo e cfg s i m w)
        # fst (render_scenes e cfg m (Suc i) ss (snd (createSceneVideo e cfg s i m w))),
      snd (render_scenes e cfg m (Suc i) ss (snd (createSceneVideo e cfg s i m w))))"
  by (simp split: prod.splits)

lemma upt_shift: "[i..<i + length (s # ss)] = i # [Suc i..<Suc i + length ss]"
  by (simp add: upt_conv_Cons del: upt_Suc)


lemma render_scenes_renders:
  "renders (snd (render_scenes e cfg m i ss w)) =
     renders w @ map (\<lambda>s. (escape_quotes (scene_text s), min (scene_duration s) m)) ss"
proof (induction ss arbitrary: i w)
  case Nil
  show ?case by simp
next
  case (Cons s ss)
  show ?case
    unfolding render_scenes_Cons
    by (simp only: snd_conv Cons.IH createSceneVideo_renders list.map append_assoc append.simps)
qed


lemma render_scenes_handled:
  "handled (snd (render_scenes e cfg m i ss w)) =
     handled w @ map RenderError (filter (\<lambda>k. \<not> render_ok e k) [i..<i + length ss])"
proof (induction ss arbitrary: i w)
  case Nil
  show ?case by simp
next
  case (Cons s ss)
  show ?case
    unfolding render_scenes_Cons upt_shift
    by (simp add: Cons.IH createSceneVideo_handled del: render_scenes.simps upt_Suc)
qed




lemma concatenateVideos_fst:
  "fst (concatenateVideos e cfg ps out w) =
     (if writeFile_ok e \<and> concat_ok e then Some out else None)"
  by (simp add: concatenateVideos_def safeExecute_def Let_def)


lemma concatenateVideos_renders:
  "renders (snd (concatenateVideos e cfg ps out w)) = renders w"
  by (simp add: concatenateVideos_def safeExecute_def Let_def ErrorHandler_handle_def)

lemma concatenateVideos_handled:
  "handled (snd (concatenateVideos e cfg ps out w)) =
     handled w @ (if \<not> writeFile_ok e then [WriteError]
                  else if \<not> concat_ok e then [ConcatError] else [])"
  by (simp add: concatenateVideos_def safeExecute_def Let_def ErrorHandler_handle_def)

lemma unlink_other:
  "renders (unlink e p w) = renders w" "concats (unlink e p w) = concats w"
  "handled (unlink e p w) = handled w"
  by (simp_all add: unlink_def)

lemma cleanup_other:
  "renders (cleanup e ps w) = renders w \<and> concats (cleanup e ps w) = concats w
     \<and> handled (cleanup e ps w) = handled w"
  by (induction e ps w rule: cleanup.induct) (simp_all add: unlink_other)



lemma createVideoFromScript_unfold:
  assumes "title (spread sd op) = Some t" and "script (spread sd op) = Some s"
  shows "createVideoFromScript e cfg sd op w =
     (let dur = (case duration (spread sd op) of Some d \<Rightarrow> d | None \<Rightarrow> 60);
          scenes = parseScript (math_random e) s;
          r = render_scenes e cfg (dur / real (length scenes)) 0 scenes w;
          c = concatenateVideos e cfg (fst r) (outputPath cfg t) (snd r)
      in (fst c, cleanup e (fst r) (snd c)))"
  using assms by (simp add: createVideoFromScript_def safeExecute_def Let_def split: prod.splits)

lemmas eval_defs = example_cfg_def example_env_def example_args_def no_options_def empty_world_def
  createVideoFromScript_def safeExecute_def ErrorHandler_handle_def createSceneVideo_def
  concatenateVideos_def unlink_def clips_of_def listFile_def outputPath_def scenePath_def
  path_join_def lit_def parseScript_def trim_def isWhiteSpace_def sanitizeFilename_def inClass_def
  escape_quotes_def spread_def Let_def digits.simps enumerate_eq_zip upt_rec

lemma example_title: "title (spread example_args no_options) = Some (lit ''My Video'')"
  by (simp add: spread_def example_args_def no_options_def)

lemma example_script: "script (spread example_args no_options) = Some (lit ''A. B. C.'')"
  by (simp add: spread_def example_args_def no_options_def)

lemma example_scenes:
  "parseScript (\<lambda>i. 1 / 2) (lit ''A. B. C.'') =
     [\<lparr>scene_id = 0, scene_text = lit ''A'', scene_duration = 4\<rparr>,
      \<lparr>scene_id = 1, scene_text = lit ''B'', scene_duration = 4\<rparr>,
      \<lparr>scene_id = 2, scene_text = lit ''C.'', scene_duration = 4\<rparr>]"
  by (simp add: eval_defs)




















lemma optimizeForPlatform_fst_nonempty:
  "fst (optimizeForPlatform e vp pf w) = Some ov \<Longrightarrow> optimize_ok e"
  by (auto simp: optimizeForPlatform_def safeExecute_def Let_def split: if_splits)











section \<open>Helper facts: segmentation\<close>

lemma split_period_space_piece:
  "\<not> has_period_space a \<Longrightarrow>
     split_period_space acc (a @ 0x2E # 0x20 # rest) = (acc @ a) # split_period_space [] rest"
proof (induction a arbitrary: acc rule: has_period_space.induct)
  case 1
  show ?case by simp
next
  case (2 c)
  show ?case by simp
next
  case (3 c d r)
  from "3.prems" have nc: "\<not> (c = 0x2E \<and> d = 0x20)" and nr: "\<not> has_period_space (d # r)"
    by simp_all
  have "split_period_space acc ((c # d # r) @ 0x2E # 0x20 # rest) =
      split_period_space (acc @ [c]) ((d # r) @ 0x2E # 0x20 # rest)"
    using nc by auto
  also have "\<dots> = ((acc @ [c]) @ d # r) # split_period_space [] rest"
    by (rule "3.IH" [OF nr])
  finally show ?case by simp
qed

lemma split_period_space_last:
  "\<not> has_period_space a \<Longrightarrow> split_period_space acc a = [acc @ a]"
proof (induction a arbitrary: acc rule: has_period_space.induct)
  case 1
  show ?case by simp
next
  case (2 c)
  show ?case by simp
next
  case (3 c d r)
  from "3.prems" have nc: "\<not> (c = 0x2E \<and> d = 0x20)" and nr: "\<not> has_period_space (d # r)"
    by simp_all
  have "split_period_space acc (c # d # r) = split_period_space (acc @ [c]) (d # r)"
    using nc by auto
  also have "\<dots> = [(acc @ [c]) @ d # r]"
    by (rule "3.IH" [OF nr])
  finally show ?case by simp
qed

lemma split_join_period_space:
  "segs \<noteq> [] \<Longrightarrow> list_all (\<lambda>s. \<not> has_period_space s) segs \<Longrightarrow>
     split_period_space [] (join_period_space segs) = segs"
proof (induction segs rule: join_period_space.induct)
  case 1
  then show ?case by simp
next
  case (2 s)
  then show ?case by (simp add: split_period_space_last)
next
  case (3 s t ss)
  then show ?case
    using split_period_space_piece [of s "[]" "join_period_space (t # ss)"] by simp
qed

lemma map_enumerate_snd: "map (\<lambda>p. f (snd p)) (enumerate n xs) = map f xs"
  by (induction xs arbitrary: n) simp_all

lemma map_enumerate_fst: "map (\<lambda>p. f (fst p)) (enumerate n xs) = map f [n..<n + length xs]"
proof -
  have "map (\<lambda>p. f (fst p)) (enumerate n xs) = map (f \<circ> fst) (enumerate n xs)"
    by (simp only: comp_def)
  also have "\<dots> = map f (map fst (enumerate n xs))"
    by (simp only: map_map)
  also have "\<dots> = map f [n..<n + length xs]"
    by (simp only: map_fst_enumerate)
  finally show ?thesis .
qed

lemma parseScript_texts:
  "map scene_text (parseScript rnd scr) =
     map trim (filter (\<lambda>s. trim s \<noteq> []) (split_period_space [] scr))"
  by (simp add: parseScript_def Let_def case_prod_unfold comp_def map_enumerate_snd)

lemma parseScript_length:
  "length (parseScript rnd scr) =
     length (filter (\<lambda>s. trim s \<noteq> []) (split_period_space [] scr))"
  by (simp add: parseScript_def Let_def)

lemma parseScript_ids:
  "map scene_id (parseScript rnd scr) = [0..<length (parseScript rnd scr)]"
  unfolding parseScript_length
  by (simp add: parseScript_def Let_def case_prod_unfold comp_def map_enumerate_fst)

lemma parseScript_durations:
  "map scene_duration (parseScript rnd scr) =
     map (\<lambda>i. 3 + rnd i * 2) [0..<length (parseScript rnd scr)]"
  unfolding parseScript_length
  using map_enumerate_fst [of "\<lambda>i. 3 + rnd i * 2" 0
      "filter (\<lambda>s. trim s \<noteq> []) (split_period_space [] scr)"]
  by (simp add: parseScript_def Let_def case_prod_unfold comp_def)

lemma has_period_space_snoc:
  "has_period_space (xs @ [d]) =
     (has_period_space xs \<or> (xs \<noteq> [] \<and> last xs = 0x2E \<and> d = 0x20))"
  by (induction xs rule: has_period_space.induct) auto

lemma has_period_space_take1: "\<not> has_period_space (take (Suc 0) s)"
  by (cases s) simp_all

lemma split_period_space_free:
  "\<not> has_period_space (acc @ take 1 s) \<Longrightarrow>
     list_all (\<lambda>p. \<not> has_period_space p) (split_period_space acc s)"
proof (induction acc s rule: split_period_space.induct)
  case (1 acc)
  then show ?case by simp
next
  case (2 acc c)
  then show ?case by simp
next
  case (3 acc c d rest)
  from "3.prems" have ac: "\<not> has_period_space (acc @ [c])"
    by simp
  show ?case
  proof (cases "c = 0x2E \<and> d = 0x20")
    case True
    have "\<not> has_period_space acc"
      using ac by (simp add: has_period_space_snoc)
    moreover have "list_all (\<lambda>p. \<not> has_period_space p) (split_period_space [] rest)"
      using True by (intro "3.IH"(1)) (simp_all add: has_period_space_take1)
    ultimately show ?thesis
      using True by simp
  next
    case False
    have "\<not> has_period_space ((acc @ [c]) @ take 1 (d # rest))"
      using ac False by (simp add: has_period_space_snoc [of "acc @ [c]" d, simplified])
    then have "list_all (\<lambda>p. \<not> has_period_space p) (split_period_space (acc @ [c]) (d # rest))"
      using False by (intro "3.IH"(2)) simp_all
    then show ?thesis
      using False by auto
  qed
qed

lemma split_period_space_nonempty: "split_period_space acc s \<noteq> []"
  by (induction acc s rule: split_period_space.induct) auto

lemma join_split_period_space: "join_period_space (split_period_space acc s) = acc @ s"
proof (induction acc s rule: split_period_space.induct)
  case (1 acc)
  show ?case by simp
next
  case (2 acc c)
  show ?case by simp
next
  case (3 acc c d rest)
  show ?case
  proof (cases "c = 0x2E \<and> d = 0x20")
    case True
    obtain x xs where x: "split_period_space [] rest = x # xs"
      using split_period_space_nonempty [of "[]" rest] by (cases "split_period_space [] rest") auto
    have "join_period_space (x # xs) = rest"
      using "3.IH"(1) True x by simp
    then show ?thesis
      using True x by simp
  next
    case False
    then show ?thesis
      using "3.IH"(2) by auto
  qed
qed


section \<open>Claims\<close>

text \<open>
  C10. \<open>sanitizeFilename\<close> is idempotent: applying it to its own result changes nothing,
  for every string.
\<close>

theorem sanitizeFilename_idempotent:
  "sanitizeFilename (sanitizeFilename s) = sanitizeFilename s"
proof -
  let ?f = "\<lambda>c::jschar. if inClass c then c else 0x5F"
  have "map ?f (map ?f s) = map ?f s"
    by (simp add: inClass_underscore)
  then have "map ?f (take 100 (map ?f s)) = take 100 (map ?f s)"
    by (simp add: take_map [symmetric] del: map_map)
  then show ?thesis
    by (simp add: sanitizeFilename_def)
qed




text \<open>
  C6. Every scene is rendered with the duration \<open>min (scene duration) (budget)\<close>, the
  budget being the requested duration divided by the number of scenes; so every
  duration the renderer receives is at most that budget (and with it at most the budget
  plus any jitter bound). For a script of three sentences and duration 60 the budget is
  60 / 3.
\<close>

theorem renderer_duration_is_min_of_scene_and_budget:
  assumes "title (spread sd op) = Some t" and "script (spread sd op) = Some s"
    and "dur = (case duration (spread sd op) of Some d \<Rightarrow> d | None \<Rightarrow> 60)"
    and "scenes = parseScript (math_random e) s"
  shows "renders (snd (createVideoFromScript e cfg sd op w)) =
           renders w @ map (\<lambda>sc. (escape_quotes (scene_text sc),
                                   min (scene_duration sc) (dur / real (length scenes)))) scenes
         \<and> list_all (\<lambda>(txt, d). d \<le> dur / real (length scenes))
              (drop (length (renders w)) (renders (snd (createVideoFromScript e cfg sd op w))))"
proof -
  have r: "renders (snd (createVideoFromScript e cfg sd op w)) =
      renders w @ map (\<lambda>sc. (escape_quotes (scene_text sc),
                              min (scene_duration sc) (dur / real (length scenes)))) scenes"
    using assms(3,4)
    by (simp add: createVideoFromScript_unfold [OF assms(1,2)] Let_def cleanup_other
        concatenateVideos_renders render_scenes_renders)
  show ?thesis
    by (simp add: r list_all_iff)
qed

theorem renderer_duration_is_min_of_scene_and_budget_witness:
  "title (spread example_args no_options) = Some (lit ''My Video'')
   \<and> script (spread example_args no_options) = Some (lit ''A. B. C.'')
   \<and> renders (snd (createVideoFromScript example_env example_cfg example_args no_options
                     empty_world)) =
       [(lit ''A'', min 4 (60 / 3)), (lit ''B'', min 4 (60 / 3)), (lit ''C.'', min 4 (60 / 3))]
   \<and> list_all (\<lambda>(txt, d). d \<le> 60 / 3)
       (renders (snd (createVideoFromScript example_env example_cfg example_args no_options
                        empty_world)))"
proof -
  have d: "(case duration (spread example_args no_options) of Some d \<Rightarrow> d | None \<Rightarrow> 60) = (60::real)"
    by (simp add: spread_def example_args_def no_options_def)
  have s: "parseScript (math_random example_env) (lit ''A. B. C.'') =
      [\<lparr>scene_id = 0, scene_text = lit ''A'', scene_duration = 4\<rparr>,
       \<lparr>scene_id = 1, scene_text = lit ''B'', scene_duration = 4\<rparr>,
       \<lparr>scene_id = 2, scene_text = lit ''C.'', scene_duration = 4\<rparr>]"
    by (simp add: example_env_def example_scenes)
  have q: "escape_quotes (lit ''A'') = lit ''A''" "escape_quotes (lit ''B'') = lit ''B''"
    "escape_quotes (lit ''C.'') = lit ''C.''"
    by (simp_all add: escape_quotes_def lit_def)
  show ?thesis
    using renderer_duration_is_min_of_scene_and_budget
      [OF example_title example_script d [symmetric] s [symmetric], of example_cfg empty_world]
    by (simp add: example_title example_script q empty_world_def)
qed

text \<open>
  C1, as stated, fails: with the render of scene 1 of a three-sentence script failing,
  \<open>createVideoFromScript\<close> still returns the output path, and the video it wrote holds
  the clips of scenes 0 and 2 only.
\<close>

theorem failed_scene_is_skipped_counterexample:
  "\<not> render_ok scene1_fails_env 1
   \<and> (case createVideoFromScript scene1_fails_env example_cfg example_args no_options
             empty_world of
        (r, w) \<Rightarrow> r = Some (lit ''/srv/out/My_Video.mp4'')
                 \<and> files w (lit ''/srv/out/My_Video.mp4'') =
                     Some (Video [(lit ''A'', 4), (lit ''C.'', 4)]))"
  by (simp add: scene1_fails_env_def eval_defs)

text \<open>
  C1, amended. \<open>createVideoFromScript\<close> raises nothing to its caller: every error is
  handed to \<open>ErrorHandler.handle\<close> and logged. With a title and a script, it returns
  \<open>null\<close> exactly when writing the list file or the concatenation fails, and the output
  path otherwise; a scene whose render fails is logged and skipped, and does not change
  the result.
\<close>

theorem createVideoFromScript_failure_handling:
  assumes "title (spread sd op) = Some t" and "script (spread sd op) = Some s"
  shows "fst (createVideoFromScript e cfg sd op w) =
           (if writeFile_ok e \<and> concat_ok e then Some (outputPath cfg t) else None)
         \<and> handled (snd (createVideoFromScript e cfg sd op w)) =
             handled w
             @ map RenderError
                 (filter (\<lambda>k. \<not> render_ok e k) [0..<length (parseScript (math_random e) s)])
             @ (if \<not> writeFile_ok e then [WriteError]
                else if \<not> concat_ok e then [ConcatError] else [])"
  by (simp add: createVideoFromScript_unfold [OF assms] Let_def concatenateVideos_fst
      cleanup_other concatenateVideos_handled render_scenes_handled)

theorem createVideoFromScript_failure_handling_witness:
  "title (spread example_args no_options) = Some (lit ''My Video'')
   \<and> script (spread example_args no_options) = Some (lit ''A. B. C.'')
   \<and> fst (createVideoFromScript concat_fails_env example_cfg example_args no_options
             empty_world) = None
   \<and> handled (snd (createVideoFromScript concat_fails_env example_cfg example_args no_options
                     empty_world)) = [ConcatError]"
proof -
  have n: "length (parseScript (math_random concat_fails_env) (lit ''A. B. C.'')) = 3"
    by (simp add: concat_fails_env_def example_env_def example_scenes)
  have f: "filter (\<lambda>k. \<not> render_ok concat_fails_env k) [0..<3] = []"
    by (simp add: concat_fails_env_def example_env_def)
  have c: "writeFile_ok concat_fails_env" "\<not> concat_ok concat_fails_env"
    by (simp_all add: concat_fails_env_def example_env_def)
  show ?thesis
    using createVideoFromScript_failure_handling [OF example_title example_script,
        of concat_fails_env example_cfg empty_world]
    by (simp add: example_title example_script n f c empty_world_def)
qed







text \<open>
  C4, as stated, fails: the only boundary the code knows is a full stop followed by a
  space. A script of three sentences ending in \<open>!\<close>, \<open>?\<close> and \<open>.\<close> gives one scene,
  and a script of two sentences that starts with the abbreviation \<open>Dr.\<close> gives three.
\<close>

theorem sentence_ends_counterexample:
  "map scene_text (parseScript (\<lambda>i. 1 / 2) (lit ''Hi! How? Fine.'')) = [lit ''Hi! How? Fine.'']
   \<and> map scene_text (parseScript (\<lambda>i. 1 / 2) (lit ''Dr. Smith went home. He slept.'')) =
       [lit ''Dr'', lit ''Smith went home'', lit ''He slept.'']"
  by (simp add: eval_defs)

text \<open>
  C4, amended. For every script, \<open>parseScript\<close> cuts the script at every occurrence of
  a full stop followed by a space and nowhere else (the pieces, joined by that boundary,
  give the script back, and no piece contains the boundary), drops the pieces that are
  empty once trimmed, and makes one scene per remaining piece, in order, with the trimmed
  piece as its text and the identifiers 0, 1, 2, ...; so a script written as pieces
  joined by that boundary gives exactly as many scenes as it has non-blank pieces, and
  three such pieces give three scenes.
\<close>

theorem parseScript_one_scene_per_piece:
  "join_period_space (split_period_space [] scr) = scr
   \<and> list_all (\<lambda>s. \<not> has_period_space s) (split_period_space [] scr)
   \<and> map scene_text (parseScript rnd scr) =
       map trim (filter (\<lambda>s. trim s \<noteq> []) (split_period_space [] scr))
   \<and> map scene_id (parseScript rnd scr) = [0..<length (parseScript rnd scr)]
   \<and> (segs \<noteq> [] \<and> list_all (\<lambda>s. \<not> has_period_space s) segs \<longrightarrow>
        map scene_text (parseScript rnd (join_period_space segs)) =
          map trim (filter (\<lambda>s. trim s \<noteq> []) segs)
        \<and> length (parseScript rnd (join_period_space segs)) =
            length (filter (\<lambda>s. trim s \<noteq> []) segs))"
proof (intro conjI impI)
  show "join_period_space (split_period_space [] scr) = scr"
    by (simp add: join_split_period_space)
  show "list_all (\<lambda>s. \<not> has_period_space s) (split_period_space [] scr)"
    by (rule split_period_space_free) (simp add: has_period_space_take1)
  show "map scene_text (parseScript rnd scr) =
      map trim (filter (\<lambda>s. trim s \<noteq> []) (split_period_space [] scr))"
    by (rule parseScript_texts)
  show "map scene_id (parseScript rnd scr) = [0..<length (parseScript rnd scr)]"
    by (rule parseScript_ids)
next
  assume a: "segs \<noteq> [] \<and> list_all (\<lambda>s. \<not> has_period_space s) segs"
  then have s: "split_period_space [] (join_period_space segs) = segs"
    by (simp add: split_join_period_space)
  show "map scene_text (parseScript rnd (join_period_space segs)) =
      map trim (filter (\<lambda>s. trim s \<noteq> []) segs)"
    by (simp only: parseScript_texts s)
  show "length (parseScript rnd (join_period_space segs)) =
      length (filter (\<lambda>s. trim s \<noteq> []) segs)"
    by (simp only: parseScript_length s)
qed

theorem parseScript_one_scene_per_piece_witness:
  "[lit ''First one'', lit '' '', lit ''Second'', lit ''Third.''] \<noteq> []
   \<and> list_all (\<lambda>s. \<not> has_period_space s)
        [lit ''First one'', lit '' '', lit ''Second'', lit ''Third.'']
   \<and> join_period_space [lit ''First one'', lit '' '', lit ''Second'', lit ''Third.'']
       = lit ''First one.  . Second. Third.''
   \<and> map scene_text (parseScript (\<lambda>i. 1 / 2) (lit ''First one.  . Second. Third.'')) =
       [lit ''First one'', lit ''Second'', lit ''Third.'']
   \<and> length (parseScript (\<lambda>i. 1 / 2) (lit ''First one.  . Second. Third.'')) = 3
   \<and> map scene_id (parseScript (\<lambda>i. 1 / 2) (lit ''First one.  . Second. Third.'')) = [0, 1, 2]"
proof -
  let ?segs = "[lit ''First one'', lit '' '', lit ''Second'', lit ''Third.'']"
  let ?scr = "lit ''First one.  . Second. Third.''"
  have h: "list_all (\<lambda>s. \<not> has_period_space s) ?segs"
    by (simp add: lit_def)
  have j: "join_period_space ?segs = ?scr"
    by (simp add: lit_def)
  have f: "map trim (filter (\<lambda>s. trim s \<noteq> []) ?segs) =
      [lit ''First one'', lit ''Second'', lit ''Third.'']"
    by (simp add: lit_def trim_def isWhiteSpace_def)
  have n: "length (filter (\<lambda>s. trim s \<noteq> []) ?segs) = 3"
    by (simp add: lit_def trim_def isWhiteSpace_def)
  have u: "[0..<3] = [0, 1, 2::nat]"
    by (simp add: upt_rec)
  note th = parseScript_one_scene_per_piece [where rnd = "\<lambda>i. 1 / 2" and segs = ?segs
      and scr = ?scr]
  have ne: "?segs \<noteq> [] \<and> list_all (\<lambda>s. \<not> has_period_space s) ?segs"
    using h by simp
  have a: "map scene_text (parseScript (\<lambda>i. 1 / 2) ?scr) =
      [lit ''First one'', lit ''Second'', lit ''Third.'']"
    using th [THEN conjunct2, THEN conjunct2, THEN conjunct2, THEN conjunct2, rule_format,
        OF ne, THEN conjunct1]
    by (simp only: j f)
  have b: "length (parseScript (\<lambda>i. 1 / 2) ?scr) = 3"
    using th [THEN conjunct2, THEN conjunct2, THEN conjunct2, THEN conjunct2, rule_format,
        OF ne, THEN conjunct2]
    by (simp only: j n)
  have c: "map scene_id (parseScript (\<lambda>i. 1 / 2) ?scr) = [0, 1, 2]"
    using th [THEN conjunct2, THEN conjunct2, THEN conjunct2, THEN conjunct1]
    by (simp only: b u)
  show ?thesis
    using h j a b c by simp
qed

text \<open>
  C5, as stated, fails: for a script of one sentence and a requested duration of 60 the
  scene gets a duration of 4 (with \<open>Math.random()\<close> giving 0.5), 56 away from
  \<open>duration / sceneCount = 60\<close>, and the durations sum to 4.
\<close>

theorem scene_duration_ignores_requested_duration_counterexample:
  "map scene_duration (parseScript (\<lambda>i. 1 / 2) (lit ''Hello world'')) = [4]
   \<and> \<not> \<bar>4 - 60 / real (length (parseScript (\<lambda>i. 1 / 2) (lit ''Hello world'')))\<bar> \<le> 2
   \<and> sum_list (map scene_duration (parseScript (\<lambda>i. 1 / 2) (lit ''Hello world''))) = 4"
  by (simp add: eval_defs)

text \<open>
  C5, amended. \<open>parseScript\<close> never sees the requested duration: every scene gets the
  duration \<open>3 + 2 * Math.random()\<close>, which lies between 3 and 5, so the durations of
  \<open>n\<close> scenes sum to a value between \<open>3 * n\<close> and \<open>5 * n\<close>, whatever total was
  requested.
\<close>

theorem scene_duration_between_3_and_5:
  assumes "\<forall>i. 0 \<le> rnd i \<and> rnd i < 1"
  shows "list_all (\<lambda>sc. 3 \<le> scene_duration sc \<and> scene_duration sc \<le> 5) (parseScript rnd scr)
         \<and> 3 * real (length (parseScript rnd scr))
             \<le> sum_list (map scene_duration (parseScript rnd scr))
         \<and> sum_list (map scene_duration (parseScript rnd scr))
             \<le> 5 * real (length (parseScript rnd scr))"
proof -
  have b: "3 \<le> 3 + rnd i * 2 \<and> 3 + rnd i * 2 \<le> 5" for i
    using assms [rule_format, of i] by simp
  have d: "\<forall>x \<in> set (map scene_duration (parseScript rnd scr)). 3 \<le> x \<and> x \<le> 5"
    unfolding parseScript_durations using b by auto
  have lo: "3 * real (length xs) \<le> sum_list xs" and hi: "sum_list xs \<le> 5 * real (length xs)"
    if "\<forall>x \<in> set xs. 3 \<le> x \<and> x \<le> 5" for xs :: "real list"
    using that by (induction xs) (auto simp: algebra_simps)
  have "list_all (\<lambda>sc. 3 \<le> scene_duration sc \<and> scene_duration sc \<le> 5) (parseScript rnd scr)"
    using d by (simp add: list_all_iff)
  then show ?thesis
    using lo [OF d] hi [OF d] by simp
qed

theorem scene_duration_between_3_and_5_witness:
  "(\<forall>i::nat. (0::real) \<le> 1 / 2 \<and> (1::real) / 2 < 1)
   \<and> map scene_duration (parseScript (\<lambda>i. 1 / 2) (lit ''A. B. C.'')) = [4, 4, 4]
   \<and> list_all (\<lambda>sc. 3 \<le> scene_duration sc \<and> scene_duration sc \<le> 5)
        (parseScript (\<lambda>i. 1 / 2) (lit ''A. B. C.''))
   \<and> 3 * real (length (parseScript (\<lambda>i. 1 / 2) (lit ''A. B. C.'')))
        \<le> sum_list (map scene_duration (parseScript (\<lambda>i. 1 / 2) (lit ''A. B. C.'')))
   \<and> sum_list (map scene_duration (parseScript (\<lambda>i. 1 / 2) (lit ''A. B. C.'')))
        \<le> 5 * real (length (parseScript (\<lambda>i. 1 / 2) (lit ''A. B. C.'')))"
proof -
  have h: "\<forall>i::nat. (0::real) \<le> (\<lambda>i. 1 / 2) i \<and> (\<lambda>i. 1 / 2) i < (1::real)"
    by simp
  show ?thesis
    using scene_duration_between_3_and_5 [OF h, of "lit ''A. B. C.''"]
    by (simp add: example_scenes)
qed

text \<open>
  C8. The guard \<open>if (!this.queues[queueName])\<close> reports an unknown queue only when the
  property read gives \<open>undefined\<close>. For a name that \<open>Object.prototype\<close> defines, such
  as \<open>constructor\<close>, the read gives a function, the guard is passed, and each of the
  five operations fails with the TypeError of the method call instead. A name that is
  neither registered nor inherited gives the unknown-queue error, and a registered queue
  with an unknown job id gives \<open>null\<close>.
\<close>

theorem inherited_name_passes_the_guard:
  "init ''constructor'' = None
   \<and> getJobStatus init ''constructor'' ''1'' = Inl NotAFunction
   \<and> getQueueStats init ''constructor'' = Inl NotAFunction
   \<and> clearQueue init ''constructor'' = Inl NotAFunction
   \<and> pauseQueue init ''constructor'' = Inl NotAFunction
   \<and> resumeQueue init ''constructor'' = Inl NotAFunction
   \<and> getJobStatus init ''noSuchQueue'' ''1'' = Inl (QueueNotFound ''noSuchQueue'')
   \<and> getJobStatus init ''videoGeneration'' ''1'' = Inr None"
  by (simp add: init_def getJobStatus_def getQueueStats_def clearQueue_def pauseQueue_def
      resumeQueue_def get_property_def object_prototype_names_def)

end
